theory Spec2Isabelle
  imports Main "HOL-Library.Word"
begin

unbundle bit_operations_syntax

section \<open>Values received from the search provider\<close>

text \<open>
  The backend parses the provider's reply with \<^verbatim>\<open>response.json()\<close>; every value the
  normalizer sees is therefore \<^verbatim>\<open>None\<close>, a \<^verbatim>\<open>bool\<close>, an \<^verbatim>\<open>int\<close>, a \<^verbatim>\<open>float\<close>, a
  \<^verbatim>\<open>str\<close>, a \<^verbatim>\<open>list\<close> or a \<^verbatim>\<open>dict\<close> with string keys.

  A Python \<^verbatim>\<open>float\<close> is an IEEE-754 binary64 number.  \<open>Finite s m e\<close> stands for
  \<open>(-1)\<^sup>s * m * 2\<^sup>e\<close>; the sign is kept apart so that negative zero exists.
  A \<^verbatim>\<open>str\<close> is a list of code points; \<open>char\<close> covers the code points below 256.
  A \<^verbatim>\<open>dict\<close> is an association list in insertion order, read with \<open>map_of\<close>.
\<close>

datatype pyfloat = Finite bool nat int | Infinity bool | NaN

datatype json =
    JNull
  | JBool bool
  | JInt int
  | JFloat pyfloat
  | JStr string
  | JList "json list"
  | JDict "(string \<times> json) list"

text \<open>Exceptions are values; a computation that may raise returns \<open>exc + 'a\<close>.\<close>

datatype exc =
    TypeError
  | AttributeError
  | KeyError
  | OverflowError
  | ValidationError
  | HTTPException nat string
  | ServiceError string

definition bindE :: "exc + 'a \<Rightarrow> ('a \<Rightarrow> exc + 'b) \<Rightarrow> exc + 'b" where
  "bindE m f = (case m of Inl e \<Rightarrow> Inl e | Inr x \<Rightarrow> f x)"

subsection \<open>Python's operators on these values\<close>

definition is_zero :: "pyfloat \<Rightarrow> bool" where
  "is_zero x = (case x of Finite s m e \<Rightarrow> m = 0 | _ \<Rightarrow> False)"

text \<open>Truth value testing (\<^verbatim>\<open>if x:\<close>).\<close>

definition py_truthy :: "json \<Rightarrow> bool" where
  "py_truthy v =
     (case v of
        JNull \<Rightarrow> False
      | JBool b \<Rightarrow> b
      | JInt i \<Rightarrow> i \<noteq> 0
      | JFloat x \<Rightarrow> \<not> is_zero x
      | JStr s \<Rightarrow> s \<noteq> []
      | JList xs \<Rightarrow> xs \<noteq> []
      | JDict d \<Rightarrow> d \<noteq> [])"

fun py_substring :: "string \<Rightarrow> string \<Rightarrow> bool" where
  "py_substring k [] = (k = [])"
| "py_substring k (c # cs) = (take (length k) (c # cs) = k \<or> py_substring k cs)"

text \<open>
  \<^verbatim>\<open>k in v\<close> for a string \<open>k\<close>: key membership on a dict, substring test on a str,
  element membership on a list, \<^verbatim>\<open>TypeError\<close> on everything else.
\<close>

definition py_in :: "string \<Rightarrow> json \<Rightarrow> exc + bool" where
  "py_in k v =
     (case v of
        JDict d \<Rightarrow> Inr (map_of d k \<noteq> None)
      | JStr s \<Rightarrow> Inr (py_substring k s)
      | JList xs \<Rightarrow> Inr (JStr k \<in> set xs)
      | _ \<Rightarrow> Inl TypeError)"

text \<open>\<^verbatim>\<open>v[k]\<close> for a string \<open>k\<close>.\<close>

definition py_getitem :: "json \<Rightarrow> string \<Rightarrow> exc + json" where
  "py_getitem v k =
     (case v of
        JDict d \<Rightarrow> (case map_of d k of Some x \<Rightarrow> Inr x | None \<Rightarrow> Inl KeyError)
      | _ \<Rightarrow> Inl TypeError)"

text \<open>\<^verbatim>\<open>v.get(k, default)\<close>: only a dict has the method.\<close>

definition py_get :: "json \<Rightarrow> string \<Rightarrow> json \<Rightarrow> exc + json" where
  "py_get v k dflt =
     (case v of
        JDict d \<Rightarrow> Inr (case map_of d k of Some x \<Rightarrow> x | None \<Rightarrow> dflt)
      | _ \<Rightarrow> Inl AttributeError)"

text \<open>\<^verbatim>\<open>for x in v\<close>: the elements of a list, the characters of a str, the keys of a dict.\<close>

definition py_iter :: "json \<Rightarrow> exc + json list" where
  "py_iter v =
     (case v of
        JList xs \<Rightarrow> Inr xs
      | JStr s \<Rightarrow> Inr (map (\<lambda>c. JStr [c]) s)
      | JDict d \<Rightarrow> Inr (map (\<lambda>kv. JStr (fst kv)) d)
      | _ \<Rightarrow> Inl TypeError)"

subsection \<open>Binary64 arithmetic\<close>

fun bit_length :: "nat \<Rightarrow> nat" where
  "bit_length n = (if n = 0 then 0 else Suc (bit_length (n div 2)))"

declare bit_length.simps [simp del]

text \<open>\<open>m / 2\<^sup>k\<close> rounded to the nearest integer, ties to even.\<close>

definition shift_round :: "nat \<Rightarrow> nat \<Rightarrow> nat" where
  "shift_round m k =
     (if k = 0 then m
      else let q = m div 2 ^ k; r = m mod 2 ^ k; half = 2 ^ (k - 1)
           in if half < r \<or> (r = half \<and> odd q) then q + 1 else q)"

text \<open>
  The binary64 number nearest to \<open>(-1)\<^sup>s * m * 2\<^sup>e\<close> (round to nearest, ties to even):
  at most 53 significant bits, no exponent below \<open>-1074\<close>, infinity from \<open>2\<^sup>1\<^sup>0\<^sup>2\<^sup>4\<close> on.
\<close>

definition round_double :: "bool \<Rightarrow> nat \<Rightarrow> int \<Rightarrow> pyfloat" where
  "round_double s m e =
     (let k = max 0 (max (int (bit_length m) - 53) (- 1074 - e));
          m' = shift_round m (nat k);
          e' = e + k
      in if 1024 < int (bit_length m') + e' then Infinity s else Finite s m' e')"

definition float_mul :: "pyfloat \<Rightarrow> pyfloat \<Rightarrow> pyfloat" where
  "float_mul x y =
     (case (x, y) of
        (Finite s1 m1 e1, Finite s2 m2 e2) \<Rightarrow> round_double (s1 \<noteq> s2) (m1 * m2) (e1 + e2)
      | (Finite s1 m1 e1, Infinity s2) \<Rightarrow> if m1 = 0 then NaN else Infinity (s1 \<noteq> s2)
      | (Infinity s1, Finite s2 m2 e2) \<Rightarrow> if m2 = 0 then NaN else Infinity (s1 \<noteq> s2)
      | (Infinity s1, Infinity s2) \<Rightarrow> Infinity (s1 \<noteq> s2)
      | _ \<Rightarrow> NaN)"

text \<open>\<^verbatim>\<open>float(i)\<close>: raises \<^verbatim>\<open>OverflowError\<close> where the int is too large.\<close>

definition int_to_float :: "int \<Rightarrow> exc + pyfloat" where
  "int_to_float i =
     (case round_double (i < 0) (nat \<bar>i\<bar>) 0 of
        Infinity s \<Rightarrow> Inl OverflowError
      | x \<Rightarrow> Inr x)"

text \<open>
  \<^verbatim>\<open>v * y\<close> for a float \<open>y\<close>: an int (a bool is one) is converted to a float first; a
  str, list, dict or None raises \<^verbatim>\<open>TypeError\<close>.
\<close>

definition py_mul_float :: "json \<Rightarrow> pyfloat \<Rightarrow> exc + pyfloat" where
  "py_mul_float v y =
     (case v of
        JFloat x \<Rightarrow> Inr (float_mul x y)
      | JInt i \<Rightarrow> bindE (int_to_float i) (\<lambda>x. Inr (float_mul x y))
      | JBool b \<Rightarrow> bindE (int_to_float (if b then 1 else 0)) (\<lambda>x. Inr (float_mul x y))
      | _ \<Rightarrow> Inl TypeError)"

subsection \<open>Rendering numbers\<close>

definition digit_char :: "nat \<Rightarrow> char" where
  "digit_char d = ''0123456789'' ! d"

fun nat_digits :: "nat \<Rightarrow> string" where
  "nat_digits n = (if n < 10 then [digit_char n] else nat_digits (n div 10) @ [digit_char (n mod 10)])"

declare nat_digits.simps [simp del]

text \<open>\<^verbatim>\<open>str(i)\<close> for an int.\<close>

definition py_str_int :: "int \<Rightarrow> string" where
  "py_str_int i = (if i < 0 then CHR ''-'' # nat_digits (nat (- i)) else nat_digits (nat i))"

text \<open>
  \<^verbatim>\<open>f"{x:.1f}"\<close>: the exact value of the float rounded to one decimal, ties to even;
  the sign is printed also when the digits are all zero.
\<close>

definition format_1f :: "pyfloat \<Rightarrow> string" where
  "format_1f x =
     (case x of
        NaN \<Rightarrow> ''nan''
      | Infinity s \<Rightarrow> (if s then ''-inf'' else ''inf'')
      | Finite s m e \<Rightarrow>
          (let t = (if 0 \<le> e then m * 10 * 2 ^ nat e else shift_round (m * 10) (nat (- e)))
           in (if s then ''-'' else '''') @ nat_digits (t div 10) @ ''.'' @ [digit_char (t mod 10)]))"

text \<open>The literal \<^verbatim>\<open>0.000621371\<close>: the binary64 number \<open>5731135905912489 * 2\<^sup>-\<^sup>6\<^sup>3\<close>.\<close>

definition miles_per_meter :: pyfloat where
  "miles_per_meter = Finite False 5731135905912489 (- 63)"

subsection \<open>The built-in hash\<close>

text \<open>
  \<^verbatim>\<open>hash(s)\<close> of a str is SipHash-1-3 over its code units, keyed by the two 64-bit
  words of the interpreter's hash secret, which is drawn afresh for every process unless
  \<^verbatim>\<open>PYTHONHASHSEED\<close> fixes it.
\<close>

definition rotate64 :: "64 word \<Rightarrow> nat \<Rightarrow> 64 word" where
  "rotate64 x b = (push_bit b x OR drop_bit (64 - b) x)"

definition half_round ::
  "64 word \<times> 64 word \<times> 64 word \<times> 64 word \<Rightarrow> nat \<Rightarrow> nat \<Rightarrow> 64 word \<times> 64 word \<times> 64 word \<times> 64 word" where
  "half_round v s t =
     (case v of (a, b, c, d) \<Rightarrow>
        let a1 = a + b; c1 = c + d;
            b1 = rotate64 b s XOR a1;
            d1 = rotate64 d t XOR c1
        in (rotate64 a1 32, b1, c1, d1))"

definition single_round ::
  "64 word \<times> 64 word \<times> 64 word \<times> 64 word \<Rightarrow> 64 word \<times> 64 word \<times> 64 word \<times> 64 word" where
  "single_round v =
     (case half_round v 13 16 of (v0, v1, v2, v3) \<Rightarrow>
        (case half_round (v2, v1, v0, v3) 17 21 of (w2, w1, w0, w3) \<Rightarrow> (w0, w1, w2, w3)))"

fun le_word :: "char list \<Rightarrow> 64 word" where
  "le_word [] = 0"
| "le_word (c # cs) = of_char c OR push_bit 8 (le_word cs)"

definition absorb ::
  "64 word \<Rightarrow> 64 word \<times> 64 word \<times> 64 word \<times> 64 word \<Rightarrow> 64 word \<times> 64 word \<times> 64 word \<times> 64 word" where
  "absorb mi v =
     (case v of (v0, v1, v2, v3) \<Rightarrow>
        (case single_round (v0, v1, v2, v3 XOR mi) of (w0, w1, w2, w3) \<Rightarrow> (w0 XOR mi, w1, w2, w3)))"

fun sip_blocks ::
  "nat \<Rightarrow> char list \<Rightarrow> 64 word \<times> 64 word \<times> 64 word \<times> 64 word \<Rightarrow> 64 word \<times> 64 word \<times> 64 word \<times> 64 word" where
  "sip_blocks n src v =
     (if 8 \<le> length src
      then sip_blocks n (drop 8 src) (absorb (le_word (take 8 src)) v)
      else absorb (push_bit 56 (of_nat n) OR le_word src) v)"

declare sip_blocks.simps [simp del]

definition siphash13 :: "64 word \<Rightarrow> 64 word \<Rightarrow> char list \<Rightarrow> 64 word" where
  "siphash13 k0 k1 src =
     (case sip_blocks (length src) src
             (k0 XOR 0x736f6d6570736575, k1 XOR 0x646f72616e646f6d,
              k0 XOR 0x6c7967656e657261, k1 XOR 0x7465646279746573) of
        (v0, v1, v2, v3) \<Rightarrow>
          (case single_round (single_round (single_round (v0, v1, v2 XOR 0xff, v3))) of
             (w0, w1, w2, w3) \<Rightarrow> (w0 XOR w1) XOR (w2 XOR w3)))"

definition str_hash :: "64 word \<Rightarrow> 64 word \<Rightarrow> string \<Rightarrow> int" where
  "str_hash k0 k1 s =
     (if s = [] then 0
      else let x = sint (siphash13 k0 k1 s) in if x = - 1 then - 2 else x)"

text \<open>
  What the normalizer takes from the process it runs in: the hash secret; the hash of
  \<^verbatim>\<open>None\<close>, bools and numbers; and the coercions the validation library grants a
  numeric field for a value that is not of the field's own type (a numeric string, say).
\<close>

record runtime =
  hash_k0 :: "64 word"
  hash_k1 :: "64 word"
  scalar_hash :: "json \<Rightarrow> int"
  lax_float :: "json \<Rightarrow> pyfloat option"
  lax_int :: "json \<Rightarrow> int option"

text \<open>\<^verbatim>\<open>hash(v)\<close>: lists and dicts are unhashable.\<close>

definition py_hash :: "runtime \<Rightarrow> json \<Rightarrow> exc + int" where
  "py_hash rt v =
     (case v of
        JStr s \<Rightarrow> Inr (str_hash (hash_k0 rt) (hash_k1 rt) s)
      | JList xs \<Rightarrow> Inl TypeError
      | JDict d \<Rightarrow> Inl TypeError
      | _ \<Rightarrow> Inr (scalar_hash rt v))"

section \<open>The canonical Business\<close>

text \<open>
  \<^verbatim>\<open>models.Business\<close>, a pydantic (version 2) model.  The fields \<^verbatim>\<open>id\<close> and \<^verbatim>\<open>image\<close>
  are \<open>id_field\<close> and \<open>image_field\<close> here.  Constructing a Business validates every
  argument against its annotation and raises \<^verbatim>\<open>ValidationError\<close> when one fails.
\<close>

record Business =
  id_field :: string
  name :: string
  rating :: "pyfloat option"
  reviews :: "int option"
  price :: "string option"
  distance :: "string option"
  image_field :: "string option"
  tags :: "string list"
  votes :: int
  location :: "(string \<times> json) list option"
  coordinates :: "(pyfloat \<times> pyfloat) option"
  phone :: "string option"
  url :: "string option"
  categories :: "(string \<times> string) list list option"

text \<open>\<^verbatim>\<open>str\<close>: only a str is accepted (numbers are not coerced to strings).\<close>

definition v_str :: "json \<Rightarrow> string option" where
  "v_str v = (case v of JStr s \<Rightarrow> Some s | _ \<Rightarrow> None)"

text \<open>\<^verbatim>\<open>Optional[T]\<close>: \<^verbatim>\<open>None\<close>, or whatever \<^verbatim>\<open>T\<close> accepts.\<close>

definition v_optional :: "(json \<Rightarrow> 'a option) \<Rightarrow> json \<Rightarrow> 'a option option" where
  "v_optional f v = (if v = JNull then Some None else map_option Some (f v))"

text \<open>\<^verbatim>\<open>float\<close>: a float as it is, an int converted; anything else is up to the library.\<close>

definition v_float :: "runtime \<Rightarrow> json \<Rightarrow> pyfloat option" where
  "v_float rt v =
     (case v of
        JFloat x \<Rightarrow> Some x
      | JInt i \<Rightarrow> (case int_to_float i of Inr x \<Rightarrow> Some x | Inl e \<Rightarrow> None)
      | _ \<Rightarrow> lax_float rt v)"

text \<open>\<^verbatim>\<open>int\<close>: an int as it is; anything else is up to the library.\<close>

definition v_int :: "runtime \<Rightarrow> json \<Rightarrow> int option" where
  "v_int rt v = (case v of JInt i \<Rightarrow> Some i | _ \<Rightarrow> lax_int rt v)"

text \<open>\<^verbatim>\<open>Dict[str, Any]\<close>.\<close>

definition v_dict :: "json \<Rightarrow> (string \<times> json) list option" where
  "v_dict v = (case v of JDict d \<Rightarrow> Some d | _ \<Rightarrow> None)"

text \<open>\<^verbatim>\<open>Dict[str, str]\<close>.\<close>

definition v_str_dict :: "json \<Rightarrow> (string \<times> string) list option" where
  "v_str_dict v =
     (case v of
        JDict d \<Rightarrow> those (map (\<lambda>kv. map_option (Pair (fst kv)) (v_str (snd kv))) d)
      | _ \<Rightarrow> None)"

text \<open>\<^verbatim>\<open>List[T]\<close>.\<close>

definition v_list :: "(json \<Rightarrow> 'a option) \<Rightarrow> json \<Rightarrow> 'a list option" where
  "v_list f v = (case v of JList xs \<Rightarrow> those (map f xs) | _ \<Rightarrow> None)"

text \<open>
  \<^verbatim>\<open>Optional[Coordinates]\<close>: the normalizer passes \<^verbatim>\<open>None\<close> or a dict of exactly the
  keys \<^verbatim>\<open>latitude\<close> and \<^verbatim>\<open>longitude\<close>, given here as the pair of their values.
\<close>

definition v_coordinates :: "runtime \<Rightarrow> (json \<times> json) option \<Rightarrow> (pyfloat \<times> pyfloat) option option" where
  "v_coordinates rt c =
     (case c of
        None \<Rightarrow> Some None
      | Some (la, lo) \<Rightarrow>
          (case (v_float rt la, v_float rt lo) of
             (Some a, Some b) \<Rightarrow> Some (Some (a, b))
           | _ \<Rightarrow> None))"

text \<open>
  The call \<^verbatim>\<open>Business(id=..., name=..., ..., votes=0, ...)\<close>; \<open>a_distance\<close> is the str
  or \<^verbatim>\<open>None\<close> the normalizer has built, \<open>a_tags\<close> the list it has built.
\<close>

definition Business_init ::
  "runtime \<Rightarrow> json \<Rightarrow> json \<Rightarrow> json \<Rightarrow> json \<Rightarrow> json \<Rightarrow> string option \<Rightarrow> json \<Rightarrow> json list
     \<Rightarrow> json \<Rightarrow> (json \<times> json) option \<Rightarrow> json \<Rightarrow> json \<Rightarrow> json \<Rightarrow> exc + Business" where
  "Business_init rt a_id a_name a_rating a_review_count a_price a_distance a_image_url a_tags
       a_location a_coordinates a_phone a_url a_categories =
     (if v_str a_id \<noteq> None \<and> v_str a_name \<noteq> None
         \<and> v_optional (v_float rt) a_rating \<noteq> None
         \<and> v_optional (v_int rt) a_review_count \<noteq> None
         \<and> v_optional v_str a_price \<noteq> None
         \<and> v_optional v_str a_image_url \<noteq> None
         \<and> those (map v_str a_tags) \<noteq> None
         \<and> v_optional v_dict a_location \<noteq> None
         \<and> v_coordinates rt a_coordinates \<noteq> None
         \<and> v_optional v_str a_phone \<noteq> None
         \<and> v_optional v_str a_url \<noteq> None
         \<and> v_optional (v_list v_str_dict) a_categories \<noteq> None
      then Inr \<lparr> id_field = the (v_str a_id),
                 name = the (v_str a_name),
                 rating = the (v_optional (v_float rt) a_rating),
                 reviews = the (v_optional (v_int rt) a_review_count),
                 price = the (v_optional v_str a_price),
                 distance = a_distance,
                 image_field = the (v_optional v_str a_image_url),
                 tags = the (those (map v_str a_tags)),
                 votes = 0,
                 location = the (v_optional v_dict a_location),
                 coordinates = the (v_coordinates rt a_coordinates),
                 phone = the (v_optional v_str a_phone),
                 url = the (v_optional v_str a_url),
                 categories = the (v_optional (v_list v_str_dict) a_categories) \<rparr>
      else Inl ValidationError)"

section \<open>The normalizer: \<^verbatim>\<open>YelpAIService._parse_business\<close>\<close>

text \<open>
  The list comprehension
  \<^verbatim>\<open>[cat.get("title", "") for cat in entity_data["categories"] if cat.get("title")]\<close>.
\<close>

fun title_tags :: "json list \<Rightarrow> exc + json list" where
  "title_tags [] = Inr []"
| "title_tags (cat # cats) =
     (case py_get cat ''title'' JNull of
        Inl e \<Rightarrow> Inl e
      | Inr t \<Rightarrow>
          if py_truthy t
          then (case py_get cat ''title'' (JStr []) of
                  Inl e \<Rightarrow> Inl e
                | Inr t' \<Rightarrow> (case title_tags cats of Inl e \<Rightarrow> Inl e | Inr ts \<Rightarrow> Inr (t' # ts)))
          else title_tags cats)"

definition tags_of :: "json \<Rightarrow> exc + json list" where
  "tags_of entity_data =
     bindE (py_in ''categories'' entity_data) (\<lambda>has.
       if \<not> has then Inr []
       else bindE (py_getitem entity_data ''categories'') (\<lambda>c.
         if \<not> py_truthy c then Inr []
         else bindE (py_getitem entity_data ''categories'') (\<lambda>c'.
           bindE (py_iter c') title_tags)))"

text \<open>
  What both photo branches do with \<^verbatim>\<open>photos\<close>: the first element's
  \<^verbatim>\<open>original_url\<close> if it is a dict, the first element itself otherwise; \<^verbatim>\<open>None\<close> if
  \<^verbatim>\<open>photos\<close> is not a non-empty list.
\<close>

definition photo_url :: "json \<Rightarrow> json" where
  "photo_url photos =
     (case photos of
        JList (p # ps) \<Rightarrow>
          (case p of
             JDict pd \<Rightarrow> (case map_of pd ''original_url'' of Some u \<Rightarrow> u | None \<Rightarrow> JNull)
           | _ \<Rightarrow> p)
      | _ \<Rightarrow> JNull)"

text \<open>The \<^verbatim>\<open>if\<close> / \<^verbatim>\<open>elif\<close> / \<^verbatim>\<open>elif\<close> chain that sets \<^verbatim>\<open>image_url\<close>.\<close>

definition image_url_of :: "json \<Rightarrow> exc + json" where
  "image_url_of entity_data =
     bindE (py_in ''image_url'' entity_data) (\<lambda>has_image.
       if has_image then py_getitem entity_data ''image_url''
       else bindE (py_in ''contextual_info'' entity_data) (\<lambda>has_info.
         if has_info
         then bindE (py_getitem entity_data ''contextual_info'') (\<lambda>info.
                Inr (case info of
                       JDict cd \<Rightarrow> (case map_of cd ''photos'' of Some ph \<Rightarrow> photo_url ph | None \<Rightarrow> JNull)
                     | _ \<Rightarrow> JNull))
         else bindE (py_in ''photos'' entity_data) (\<lambda>has_photos.
           if \<not> has_photos then Inr JNull
           else bindE (py_getitem entity_data ''photos'') (\<lambda>p.
             if \<not> py_truthy p then Inr JNull
             else bindE (py_getitem entity_data ''photos'') (\<lambda>photos.
               Inr (photo_url photos))))))"

definition coordinates_of :: "json \<Rightarrow> exc + (json \<times> json) option" where
  "coordinates_of entity_data =
     bindE (py_get entity_data ''coordinates'' JNull) (\<lambda>coords_data.
       Inr (if py_truthy coords_data
            then (case coords_data of
                    JDict cd \<Rightarrow>
                      (case (map_of cd ''latitude'', map_of cd ''longitude'') of
                         (Some la, Some lo) \<Rightarrow> Some (la, lo)
                       | _ \<Rightarrow> None)
                  | _ \<Rightarrow> None)
            else None))"

definition distance_of :: "json \<Rightarrow> exc + string option" where
  "distance_of entity_data =
     bindE (py_in ''distance'' entity_data) (\<lambda>has.
       if \<not> has then Inr None
       else bindE (py_getitem entity_data ''distance'') (\<lambda>dist_meters.
         if \<not> py_truthy dist_meters then Inr None
         else bindE (py_mul_float dist_meters miles_per_meter) (\<lambda>x.
           Inr (Some (format_1f x @ '' mi'')))))"

text \<open>
  \<^verbatim>\<open>entity_data.get("id", entity_data.get("alias", str(hash(entity_data.get("name")))))\<close>:
  the innermost argument is evaluated first, whatever keys are present.
\<close>

definition id_arg :: "runtime \<Rightarrow> json \<Rightarrow> exc + json" where
  "id_arg rt entity_data =
     bindE (py_get entity_data ''name'' JNull) (\<lambda>n.
       bindE (py_hash rt n) (\<lambda>h.
         bindE (py_get entity_data ''alias'' (JStr (py_str_int h))) (\<lambda>a.
           py_get entity_data ''id'' a)))"

text \<open>The body of the \<^verbatim>\<open>try\<close> block.\<close>

definition parse_business_body :: "runtime \<Rightarrow> json \<Rightarrow> exc + Business list" where
  "parse_business_body rt entity_data =
     bindE (py_in ''name'' entity_data) (\<lambda>has_name.
       if \<not> has_name then Inr []
       else
         bindE (tags_of entity_data) (\<lambda>a_tags.
         bindE (image_url_of entity_data) (\<lambda>a_image_url.
         bindE (coordinates_of entity_data) (\<lambda>a_coordinates.
         bindE (distance_of entity_data) (\<lambda>a_distance.
         bindE (id_arg rt entity_data) (\<lambda>a_id.
         bindE (py_get entity_data ''name'' (JStr [])) (\<lambda>a_name.
         bindE (py_get entity_data ''rating'' JNull) (\<lambda>a_rating.
         bindE (py_get entity_data ''review_count'' (JInt 0)) (\<lambda>a_review_count.
         bindE (py_get entity_data ''price'' JNull) (\<lambda>a_price.
         bindE (py_get entity_data ''location'' JNull) (\<lambda>a_location.
         bindE (py_get entity_data ''phone'' JNull) (\<lambda>a_phone.
         bindE (py_get entity_data ''url'' JNull) (\<lambda>a_url.
         bindE (py_get entity_data ''categories'' JNull) (\<lambda>a_categories.
         bindE (Business_init rt a_id a_name a_rating a_review_count a_price a_distance
                  a_image_url a_tags a_location a_coordinates a_phone a_url a_categories)
           (\<lambda>business. Inr [business])))))))))))))))"

text \<open>\<^verbatim>\<open>_parse_business\<close>: \<^verbatim>\<open>except Exception\<close> turns every exception into \<^verbatim>\<open>[]\<close>.\<close>

definition parse_business :: "runtime \<Rightarrow> json \<Rightarrow> Business list" where
  "parse_business rt entity_data =
     (case parse_business_body rt entity_data of Inl e \<Rightarrow> [] | Inr bs \<Rightarrow> bs)"

section \<open>The extractor: \<^verbatim>\<open>YelpAIService._extract_businesses\<close>\<close>

text \<open>The inner loop over a nested \<^verbatim>\<open>businesses\<close> array; \<open>acc\<close> is \<^verbatim>\<open>businesses\<close>.\<close>

fun extend_each :: "runtime \<Rightarrow> json list \<Rightarrow> Business list \<Rightarrow> Business list" where
  "extend_each rt [] acc = acc"
| "extend_each rt (business_data # rest) acc =
     extend_each rt rest (acc @ parse_business rt business_data)"

text \<open>
  The loop over a list-shaped \<^verbatim>\<open>entities\<close>.  Iterating a \<^verbatim>\<open>businesses\<close> value that is
  not iterable raises, outside any \<^verbatim>\<open>try\<close>.
\<close>

fun extract_list :: "runtime \<Rightarrow> json list \<Rightarrow> Business list \<Rightarrow> exc + Business list" where
  "extract_list rt [] acc = Inr acc"
| "extract_list rt (entity # rest) acc =
     (case entity of
        JDict d \<Rightarrow>
          if map_of d ''businesses'' \<noteq> None
          then (case py_iter (case map_of d ''businesses'' of Some b \<Rightarrow> b | None \<Rightarrow> JList []) of
                  Inl e \<Rightarrow> Inl e
                | Inr bs \<Rightarrow> extract_list rt rest (extend_each rt bs acc))
          else if map_of d ''name'' \<noteq> None
          then extract_list rt rest (acc @ parse_business rt entity)
          else extract_list rt rest acc
      | _ \<Rightarrow> extract_list rt rest acc)"

text \<open>The loop over a dict-shaped (legacy) \<^verbatim>\<open>entities\<close>.\<close>

fun extract_dict :: "runtime \<Rightarrow> (string \<times> json) list \<Rightarrow> Business list \<Rightarrow> Business list" where
  "extract_dict rt [] acc = acc"
| "extract_dict rt ((entity_id, entity_data) # rest) acc =
     (case entity_data of
        JDict d \<Rightarrow>
          if map_of d ''name'' \<noteq> None
          then extract_dict rt rest (acc @ parse_business rt entity_data)
          else extract_dict rt rest acc
      | _ \<Rightarrow> extract_dict rt rest acc)"

definition extract_businesses :: "runtime \<Rightarrow> json \<Rightarrow> exc + Business list" where
  "extract_businesses rt data =
     bindE (py_get data ''entities'' (JList [])) (\<lambda>entities.
       case entities of
         JList es \<Rightarrow> extract_list rt es []
       | JDict kvs \<Rightarrow> Inr (extract_dict rt kvs [])
       | _ \<Rightarrow> Inr [])"

section \<open>The OAuth callback: \<^verbatim>\<open>calendar_auth_callback\<close>\<close>

text \<open>
  \<open>oauth_states\<close> maps a pending state token to its user id.  The token exchange is the
  calendar client's; \<open>exchange\<close> stands for it, and the codes it is called with are logged.
  A handler ends with a response body or with the \<^verbatim>\<open>HTTPException\<close> it raised, which the
  framework answers with that status.
\<close>

datatype response = Success string json | Failure nat string

record callback_result =
  reply :: response
  states_after :: "(string \<times> string) list"
  exchanged :: "string list"

text \<open>\<^verbatim>\<open>str(e)\<close>; an \<^verbatim>\<open>HTTPException\<close> prints as status, colon, detail.\<close>

definition exc_str :: "exc \<Rightarrow> string" where
  "exc_str e =
     (case e of
        HTTPException status detail \<Rightarrow> nat_digits status @ '': '' @ detail
      | ServiceError msg \<Rightarrow> msg
      | TypeError \<Rightarrow> ''TypeError''
      | AttributeError \<Rightarrow> ''AttributeError''
      | KeyError \<Rightarrow> ''KeyError''
      | OverflowError \<Rightarrow> ''OverflowError''
      | ValidationError \<Rightarrow> ''ValidationError'')"

text \<open>The body of the \<^verbatim>\<open>try\<close> block, with the store and the log it leaves behind.\<close>

definition callback_body ::
  "(string \<Rightarrow> exc + json) \<Rightarrow> (string \<times> string) list \<Rightarrow> string \<Rightarrow> string
     \<Rightarrow> (exc + response) \<times> (string \<times> string) list \<times> string list" where
  "callback_body exchange oauth_states code state =
     (case map_of oauth_states state of
        None \<Rightarrow> (Inl (HTTPException 400 ''Invalid state parameter''), oauth_states, [])
      | Some user_id \<Rightarrow>
          (let popped = filter (\<lambda>kv. fst kv \<noteq> state) oauth_states in
           case exchange code of
             Inl e \<Rightarrow> (Inl e, popped, [code])
           | Inr tokens \<Rightarrow> (Inr (Success user_id tokens), popped, [code])))"

text \<open>
  \<^verbatim>\<open>except Exception as e: raise HTTPException(status_code=500, detail=str(e))\<close>;
  \<^verbatim>\<open>HTTPException\<close> is itself an \<^verbatim>\<open>Exception\<close>.
\<close>

definition calendar_auth_callback ::
  "(string \<Rightarrow> exc + json) \<Rightarrow> (string \<times> string) list \<Rightarrow> string \<Rightarrow> string \<Rightarrow> callback_result" where
  "calendar_auth_callback exchange oauth_states code state =
     (case callback_body exchange oauth_states code state of
        (Inl e, st, log) \<Rightarrow> \<lparr> reply = Failure 500 (exc_str e), states_after = st, exchanged = log \<rparr>
      | (Inr r, st, log) \<Rightarrow> \<lparr> reply = r, states_after = st, exchanged = log \<rparr>)"

text \<open>The status line the framework answers with.\<close>

definition status_of :: "response \<Rightarrow> nat" where
  "status_of r = (case r of Success user_id tokens \<Rightarrow> 200 | Failure status detail \<Rightarrow> status)"

section \<open>A process to run the examples in\<close>

text \<open>
  A process whose hash secret is \<open>(k0, k1)\<close> and whose validation grants a numeric field
  nothing beyond ints and floats.  \<^verbatim>\<open>PYTHONHASHSEED=0\<close> gives the secret \<open>(0, 0)\<close>.
\<close>

definition strict_runtime :: "64 word \<Rightarrow> 64 word \<Rightarrow> runtime" where
  "strict_runtime k0 k1 =
     \<lparr> hash_k0 = k0, hash_k1 = k1, scalar_hash = (\<lambda>v. 0),
       lax_float = (\<lambda>v. None), lax_int = (\<lambda>v. None) \<rparr>"

text \<open>The Business built from a record that has only a \<^verbatim>\<open>name\<close> and an \<^verbatim>\<open>id\<close>.\<close>

definition plain_business :: "string \<Rightarrow> string \<Rightarrow> Business" where
  "plain_business i n =
     \<lparr> id_field = i, name = n, rating = None, reviews = Some 0, price = None,
       distance = None, image_field = None, tags = [], votes = 0, location = None,
       coordinates = None, phone = None, url = None, categories = None \<rparr>"

section \<open>The extractor as the specification words it\<close>

text \<open>
  For each entity of a list-shaped \<^verbatim>\<open>entities\<close>: if it contains a \<^verbatim>\<open>businesses\<close> field,
  every element of that nested sequence is normalized; else, if it contains a \<^verbatim>\<open>name\<close>
  field, it is normalized itself.  The output is these results one after the other.
\<close>

definition entity_output :: "runtime \<Rightarrow> json \<Rightarrow> Business list" where
  "entity_output rt entity =
     (case entity of
        JDict d \<Rightarrow>
          (case map_of d ''businesses'' of
             Some (JList bs) \<Rightarrow> concat (map (parse_business rt) bs)
           | Some _ \<Rightarrow> []
           | None \<Rightarrow> if map_of d ''name'' \<noteq> None then parse_business rt entity else [])
      | _ \<Rightarrow> [])"

text \<open>The \<^verbatim>\<open>businesses\<close> field of an entity, where it has one, is a sequence.\<close>

definition nested_is_list :: "json \<Rightarrow> bool" where
  "nested_is_list entity =
     (case entity of
        JDict d \<Rightarrow> (case map_of d ''businesses'' of
                      Some (JList bs) \<Rightarrow> True
                    | Some _ \<Rightarrow> False
                    | None \<Rightarrow> True)
      | _ \<Rightarrow> True)"

section \<open>One decimal place, as the specification words it\<close>








section \<open>Exceptions and validation\<close>

lemma bindE_Inr: "bindE m f = Inr r \<Longrightarrow> \<exists>x. m = Inr x \<and> f x = Inr r"
  by (cases m) (simp_all add: bindE_def)

lemma bindE_simps [simp]: "bindE (Inl e) f = Inl e" "bindE (Inr x) f = f x"
  by (simp_all add: bindE_def)

lemmas parse_defs =
  parse_business_def parse_business_body_def py_in_def tags_of_def image_url_of_def
  coordinates_of_def distance_of_def id_arg_def py_get_def py_getitem_def py_hash_def
  Business_init_def v_str_def v_optional_def v_float_def v_int_def v_dict_def v_str_dict_def
  v_list_def v_coordinates_def py_truthy_def photo_url_def strict_runtime_def py_iter_def

text \<open>What a constructed Business says about the arguments it was constructed from.\<close>

lemma Business_init_Inr:
  assumes "Business_init rt a_id a_name a_rating a_rc a_price a_dist a_img a_tags a_loc a_co
             a_ph a_url a_cat = Inr b"
  shows "a_id = JStr (id_field b)" and "a_name = JStr (name b)" and "distance b = a_dist"
    and "a_img = (case image_field b of None \<Rightarrow> JNull | Some s \<Rightarrow> JStr s)"
proof -
  from assms have ok: "v_str a_id \<noteq> None" "v_str a_name \<noteq> None" "v_optional v_str a_img \<noteq> None"
    and b: "id_field b = the (v_str a_id)" "name b = the (v_str a_name)" "distance b = a_dist"
       "image_field b = the (v_optional v_str a_img)"
    unfolding Business_init_def by (auto split: if_splits)
  show "a_id = JStr (id_field b)" using ok(1) b(1) by (cases a_id) (simp_all add: v_str_def)
  show "a_name = JStr (name b)" using ok(2) b(2) by (cases a_name) (simp_all add: v_str_def)
  show "distance b = a_dist" by (rule b(3))
  show "a_img = (case image_field b of None \<Rightarrow> JNull | Some s \<Rightarrow> JStr s)"
    using ok(3) b(4) by (cases a_img) (simp_all add: v_str_def v_optional_def)
qed

section \<open>What the normalizer returns\<close>

text \<open>
  The \<^verbatim>\<open>try\<close> block ends without an exception in two ways only: at the early
  \<^verbatim>\<open>return []\<close>, or with the one Business it constructed.
\<close>

lemma parse_business_body_inv:
  assumes "parse_business_body rt e = Inr bs"
  shows "(py_in ''name'' e = Inr False \<and> bs = []) \<or>
         (\<exists>b. bs = [b] \<and> py_in ''name'' e = Inr True
            \<and> id_arg rt e = Inr (JStr (id_field b))
            \<and> py_get e ''name'' (JStr []) = Inr (JStr (name b))
            \<and> distance_of e = Inr (distance b)
            \<and> image_url_of e = Inr (case image_field b of None \<Rightarrow> JNull | Some s \<Rightarrow> JStr s))"
proof (cases "py_in ''name'' e")
  case (Inl x)
  with assms show ?thesis by (simp add: parse_business_body_def)
next
  case (Inr has)
  show ?thesis
  proof (cases has)
    case False
    with Inr assms show ?thesis by (simp add: parse_business_body_def)
  next
    case True
    with Inr assms have "\<exists>tg im co di ai an ar rc pr lo ph ur ca b.
      image_url_of e = Inr im \<and> distance_of e = Inr di \<and> id_arg rt e = Inr ai \<and>
      py_get e ''name'' (JStr []) = Inr an \<and>
      Business_init rt ai an ar rc pr di im tg lo co ph ur ca = Inr b \<and> bs = [b]"
      unfolding parse_business_body_def
      apply simp
      apply (drule bindE_Inr, erule exE, erule conjE)+
      apply blast
      done
    then obtain tg im co di ai an ar rc pr lo ph ur ca b where
      *: "image_url_of e = Inr im" "distance_of e = Inr di" "id_arg rt e = Inr ai"
      "py_get e ''name'' (JStr []) = Inr an"
      "Business_init rt ai an ar rc pr di im tg lo co ph ur ca = Inr b" "bs = [b]"
      by blast
    from Business_init_Inr [OF *(5)] * Inr True show ?thesis
      by simp
  qed
qed

lemma parse_business_cases:
  "parse_business rt e = [] \<or>
   (\<exists>b. parse_business rt e = [b] \<and> parse_business_body rt e = Inr [b])"
proof (cases "parse_business_body rt e")
  case (Inl x)
  thus ?thesis by (simp add: parse_business_def)
next
  case (Inr bs)
  from parse_business_body_inv [OF this] Inr show ?thesis
    by (auto simp: parse_business_def)
qed

lemma parse_business_inv:
  assumes "parse_business rt e = [b]"
  shows "py_in ''name'' e = Inr True"
    and "id_arg rt e = Inr (JStr (id_field b))"
    and "py_get e ''name'' (JStr []) = Inr (JStr (name b))"
    and "distance_of e = Inr (distance b)"
    and "image_url_of e = Inr (case image_field b of None \<Rightarrow> JNull | Some s \<Rightarrow> JStr s)"
proof -
  from assms have "parse_business_body rt e = Inr [b]"
    by (cases "parse_business_body rt e") (simp_all add: parse_business_def)
  from parse_business_body_inv [OF this]
  show "py_in ''name'' e = Inr True"
    and "id_arg rt e = Inr (JStr (id_field b))"
    and "py_get e ''name'' (JStr []) = Inr (JStr (name b))"
    and "distance_of e = Inr (distance b)"
    and "image_url_of e = Inr (case image_field b of None \<Rightarrow> JNull | Some s \<Rightarrow> JStr s)"
    by simp_all
qed

text \<open>Only a dict has \<^verbatim>\<open>get\<close>, and the constructor's arguments are read with \<^verbatim>\<open>get\<close>.\<close>

lemma parse_business_not_dict:
  assumes "\<And>d. e \<noteq> JDict d"
  shows "parse_business rt e = []"
proof -
  have "py_get e ''name'' (JStr []) = Inl AttributeError"
    using assms by (cases e) (auto simp: py_get_def)
  thus ?thesis
    using parse_business_cases [of rt e] parse_business_inv(3) [of rt e] by auto
qed

section \<open>Shapes of \<^verbatim>\<open>entities\<close> that hold no business\<close>

text \<open>
  Claim C5.  When the response has no \<^verbatim>\<open>entities\<close> key, or its \<^verbatim>\<open>entities\<close> value is
  neither a list nor a dict (\<^verbatim>\<open>None\<close>, a bool, a number, a str), the extractor returns
  the empty list, and it returns: no exception leaves it.
\<close>

theorem extract_businesses_other_shape:
  assumes "case map_of response ''entities'' of
             None \<Rightarrow> True
           | Some v \<Rightarrow> (case v of JList es \<Rightarrow> False | JDict kvs \<Rightarrow> False | _ \<Rightarrow> True)"
  shows "extract_businesses rt (JDict response) = Inr []"
  using assms
  by (auto simp: extract_businesses_def py_get_def split: option.splits json.splits)

theorem extract_businesses_other_shape_witness:
  "extract_businesses (strict_runtime 0 0) (JDict [(''response'', JStr ''hi'')]) = Inr []
   \<and> extract_businesses (strict_runtime 0 0) (JDict [(''entities'', JNull)]) = Inr []
   \<and> extract_businesses (strict_runtime 0 0) (JDict [(''entities'', JInt 5)]) = Inr []
   \<and> extract_businesses (strict_runtime 0 0) (JDict [(''entities'', JStr ''none'')]) = Inr []"
  using extract_businesses_other_shape [of "[(''response'', JStr ''hi'')]" "strict_runtime 0 0"]
    extract_businesses_other_shape [of "[(''entities'', JNull)]" "strict_runtime 0 0"]
    extract_businesses_other_shape [of "[(''entities'', JInt 5)]" "strict_runtime 0 0"]
    extract_businesses_other_shape [of "[(''entities'', JStr ''none'')]" "strict_runtime 0 0"]
  by simp

section \<open>Records the normalizer rejects\<close>

text \<open>
  Claim C9.  A record that has a \<^verbatim>\<open>name\<close> and whose \<^verbatim>\<open>id\<close> key is present with the value
  \<^verbatim>\<open>None\<close> is rejected whole: \<^verbatim>\<open>get("id", ...)\<close> returns the \<^verbatim>\<open>None\<close> that is there,
  whatever \<^verbatim>\<open>alias\<close> and the name's hash are, and the \<^verbatim>\<open>str\<close> field \<^verbatim>\<open>id\<close> refuses it.
\<close>

theorem null_id_rejected:
  assumes "map_of d ''name'' \<noteq> None" and "map_of d ''id'' = Some JNull"
  shows "parse_business rt (JDict d) = []
         \<and> (id_arg rt (JDict d) = Inr JNull \<or> (\<exists>e. id_arg rt (JDict d) = Inl e))"
proof -
  have arg: "id_arg rt (JDict d) = Inr JNull \<or> (\<exists>e. id_arg rt (JDict d) = Inl e)"
    using assms(2) by (auto simp: id_arg_def py_get_def bindE_def split: sum.splits)
  hence "id_arg rt (JDict d) \<noteq> Inr (JStr s)" for s
    by auto
  hence "parse_business rt (JDict d) = []"
    using parse_business_cases [of rt "JDict d"] parse_business_inv(2) [of rt "JDict d"]
    by auto
  with arg show ?thesis by simp
qed

theorem null_id_rejected_witness:
  "parse_business (strict_runtime 0 0)
     (JDict [(''name'', JStr ''A''), (''id'', JNull), (''alias'', JStr ''a'')]) = []
   \<and> id_arg (strict_runtime 0 0)
     (JDict [(''name'', JStr ''A''), (''id'', JNull), (''alias'', JStr ''a'')]) = Inr JNull"
  using null_id_rejected [of "[(''name'', JStr ''A''), (''id'', JNull), (''alias'', JStr ''a'')]"
      "strict_runtime 0 0"]
  by (simp add: id_arg_def py_get_def py_hash_def)

text \<open>
  Claim C10.  Whatever value the normalizer is given, it returns, and what it returns is
  the empty list or a list of one Business: every exception raised inside is caught.
  \<^verbatim>\<open>None\<close>, a bool, a number, a str and a list each give the empty list, so such an
  element of a nested \<^verbatim>\<open>businesses\<close> array adds nothing to the output.
\<close>

theorem parse_business_total:
  "length (parse_business rt v) \<le> 1
   \<and> parse_business rt JNull = []
   \<and> parse_business rt (JBool t) = []
   \<and> parse_business rt (JInt i) = []
   \<and> parse_business rt (JFloat x) = []
   \<and> parse_business rt (JStr s) = []
   \<and> parse_business rt (JList xs) = []
   \<and> extend_each rt [JNull, JBool t, JInt i, JFloat x, JStr s, JList xs, v] acc
       = acc @ parse_business rt v"
  using parse_business_cases [of rt v]
  by (auto simp: parse_business_not_dict)

section \<open>The OAuth callback and an unknown state\<close>

text \<open>
  Claim C2.  The callback raises \<^verbatim>\<open>HTTPException(status_code=400)\<close> for a state that is
  not pending, inside its own \<^verbatim>\<open>try\<close>; the \<^verbatim>\<open>except Exception\<close> below catches it and
  raises status 500 instead.  So a request with an unknown state is answered with 500,
  not 400.  The token exchange is not called, and the store is left as it was.
\<close>

theorem unknown_state_answered_500:
  assumes "map_of oauth_states state = None"
  shows "status_of (reply (calendar_auth_callback exchange oauth_states code state)) = 500
         \<and> exchanged (calendar_auth_callback exchange oauth_states code state) = []
         \<and> states_after (calendar_auth_callback exchange oauth_states code state) = oauth_states"
  using assms
  by (simp add: calendar_auth_callback_def callback_body_def status_of_def)

theorem unknown_state_answered_500_witness:
  "status_of (reply (calendar_auth_callback (\<lambda>c. Inr JNull) [(''s1'', ''u1'')] ''code'' ''x''))
     = 500
   \<and> exchanged (calendar_auth_callback (\<lambda>c. Inr JNull) [(''s1'', ''u1'')] ''code'' ''x'') = []
   \<and> reply (calendar_auth_callback (\<lambda>c. Inr JNull) [(''s1'', ''u1'')] ''code'' ''s1'')
     = Success ''u1'' JNull"
  using unknown_state_answered_500 [of "[(''s1'', ''u1'')]" "''x''" "\<lambda>c. Inr JNull" "''code''"]
  by (simp add: calendar_auth_callback_def callback_body_def)

section \<open>Where the image comes from\<close>

text \<open>
  Claim C7.  When the record has the key \<^verbatim>\<open>image_url\<close>, the image of the Business it
  yields is that key's value, \<^verbatim>\<open>None\<close> included: no other place is looked at.
\<close>

theorem image_url_key_wins:
  assumes "parse_business rt (JDict d) = [b]" and "map_of d ''image_url'' = Some v"
  shows "v = (case image_field b of None \<Rightarrow> JNull | Some s \<Rightarrow> JStr s)"
  using parse_business_inv(5) [OF assms(1)] assms(2)
  by (simp add: image_url_of_def py_in_def py_getitem_def)

theorem image_url_key_wins_witness:
  "map image_field (parse_business (strict_runtime 0 0)
     (JDict [(''name'', JStr ''A''), (''id'', JStr ''1''), (''image_url'', JNull),
             (''photos'', JList [JStr ''http://x''])])) = [None]"
  using image_url_key_wins [of "strict_runtime 0 0"
      "[(''name'', JStr ''A''), (''id'', JStr ''1''), (''image_url'', JNull),
        (''photos'', JList [JStr ''http://x''])]" _ JNull]
  by (simp add: parse_defs)

lemma photo_records:
  "parse_business (strict_runtime 0 0)
     (JDict [(''name'', JStr ''A''), (''id'', JStr ''1''),
             (''photos'', JList [JDict [(''original_url'', JStr ''http://y'')], JStr ''http://x''])])
   = [plain_business ''1'' ''A'' \<lparr> image_field := Some ''http://y'' \<rparr>]"
  "parse_business (strict_runtime 0 0)
     (JDict [(''name'', JStr ''A''), (''id'', JStr ''1''), (''photos'', JList [JStr ''http://x''])])
   = [plain_business ''1'' ''A'' \<lparr> image_field := Some ''http://x'' \<rparr>]"
  "parse_business (strict_runtime 0 0)
     (JDict [(''name'', JStr ''A''), (''id'', JStr ''1''),
             (''contextual_info'', JDict [(''photos'', JList [])]),
             (''photos'', JList [JStr ''http://x''])])
   = [plain_business ''1'' ''A'']"
  "parse_business (strict_runtime 0 0)
     (JDict [(''name'', JStr ''A''), (''id'', JStr ''1''),
             (''contextual_info'', JDict [(''photos'', JList [JStr ''http://z''])]),
             (''photos'', JList [JStr ''http://x''])])
   = [plain_business ''1'' ''A'' \<lparr> image_field := Some ''http://z'' \<rparr>]"
  by (simp_all add: parse_defs plain_business_def)

text \<open>
  Claim C1, as the code has it.  The places are tried by key: \<^verbatim>\<open>image_url\<close>, else
  \<^verbatim>\<open>contextual_info\<close>, else \<^verbatim>\<open>photos\<close>.  For a record with no \<^verbatim>\<open>image_url\<close> key, the
  image of the Business it yields is this.  With no \<^verbatim>\<open>contextual_info\<close> key either: the
  first element of the record's \<^verbatim>\<open>photos\<close> when that is a non-empty list (its
  \<^verbatim>\<open>original_url\<close> if the element is a dict, the element itself otherwise), and \<^verbatim>\<open>None\<close>
  when it is not.  With a \<^verbatim>\<open>contextual_info\<close> key: the first element of
  \<^verbatim>\<open>contextual_info.photos\<close> in the same way, and \<^verbatim>\<open>None\<close> when \<^verbatim>\<open>contextual_info\<close> is not
  a dict or holds no such list; the record's own \<^verbatim>\<open>photos\<close> plays no part.
\<close>

theorem direct_photos_fallback:
  assumes "parse_business rt (JDict d) = [b]" and "map_of d ''image_url'' = None"
  shows "(case image_field b of None \<Rightarrow> JNull | Some s \<Rightarrow> JStr s)
         = (case map_of d ''contextual_info'' of
              None \<Rightarrow>
                (case map_of d ''photos'' of
                   Some (JList (p # ps)) \<Rightarrow>
                     (case p of
                        JDict pd \<Rightarrow> (case map_of pd ''original_url'' of Some u \<Rightarrow> u | None \<Rightarrow> JNull)
                      | _ \<Rightarrow> p)
                 | _ \<Rightarrow> JNull)
            | Some info \<Rightarrow>
                (case info of
                   JDict cd \<Rightarrow>
                     (case map_of cd ''photos'' of
                        Some (JList (q # qs)) \<Rightarrow>
                          (case q of
                             JDict qd \<Rightarrow> (case map_of qd ''original_url'' of Some u \<Rightarrow> u | None \<Rightarrow> JNull)
                           | _ \<Rightarrow> q)
                      | _ \<Rightarrow> JNull)
                 | _ \<Rightarrow> JNull))"
proof -
  have img: "image_url_of (JDict d)
             = Inr (case image_field b of None \<Rightarrow> JNull | Some s \<Rightarrow> JStr s)"
    by (rule parse_business_inv(5) [OF assms(1)])
  show ?thesis
  proof (cases "map_of d ''contextual_info''")
    case (Some info)
    with img assms(2) show ?thesis
      by (simp add: image_url_of_def py_in_def py_getitem_def photo_url_def
          split: json.splits option.splits list.splits)
  next
    case None
    show ?thesis
    proof (cases "map_of d ''photos''")
      case no: None
      with img assms(2) None show ?thesis
        by (simp add: image_url_of_def py_in_def)
    next
      case (Some ph)
      with img assms(2) None show ?thesis
        by (cases ph)
          (auto simp: image_url_of_def py_in_def py_getitem_def photo_url_def py_truthy_def
            split: json.splits option.splits list.splits if_splits)
    qed
  qed
qed

theorem direct_photos_fallback_witness:
  "map image_field (parse_business (strict_runtime 0 0)
     (JDict [(''name'', JStr ''A''), (''id'', JStr ''1''),
             (''photos'', JList [JDict [(''original_url'', JStr ''http://y'')], JStr ''http://x''])]))
     = [Some ''http://y'']
   \<and> map image_field (parse_business (strict_runtime 0 0)
     (JDict [(''name'', JStr ''A''), (''id'', JStr ''1''),
             (''photos'', JList [JStr ''http://x''])]))
     = [Some ''http://x'']
   \<and> map image_field (parse_business (strict_runtime 0 0)
     (JDict [(''name'', JStr ''A''), (''id'', JStr ''1''),
             (''contextual_info'', JDict [(''photos'', JList [])]),
             (''photos'', JList [JStr ''http://x''])]))
     = [None]
   \<and> map image_field (parse_business (strict_runtime 0 0)
     (JDict [(''name'', JStr ''A''), (''id'', JStr ''1''),
             (''contextual_info'', JDict [(''photos'', JList [JStr ''http://z''])]),
             (''photos'', JList [JStr ''http://x''])]))
     = [Some ''http://z'']"
  using direct_photos_fallback [OF photo_records(1)] direct_photos_fallback [OF photo_records(2)]
    direct_photos_fallback [OF photo_records(3)] direct_photos_fallback [OF photo_records(4)]
    photo_records
  by (simp add: plain_business_def)

text \<open>
  A record with no \<^verbatim>\<open>image_url\<close> key, a \<^verbatim>\<open>contextual_info\<close> that is a dict with no
  \<^verbatim>\<open>photos\<close> entry, and a non-empty \<^verbatim>\<open>photos\<close> list of its own: the Business has no
  image, because the key \<^verbatim>\<open>contextual_info\<close> is present and the \<^verbatim>\<open>elif\<close> on \<^verbatim>\<open>photos\<close>
  is never reached.
\<close>

theorem contextual_info_key_blocks_photos:
  "map image_field (parse_business (strict_runtime 0 0)
     (JDict [(''name'', JStr ''A''), (''id'', JStr ''1''), (''contextual_info'', JDict []),
             (''photos'', JList [JStr ''http://x''])])) = [None]"
  by (simp add: parse_defs)

section \<open>Order and omission in the extractor\<close>

lemma extend_each_concat:
  "extend_each rt xs acc = acc @ concat (map (parse_business rt) xs)"
  by (induction xs arbitrary: acc) simp_all

lemma extract_list_flat:
  "list_all nested_is_list es \<Longrightarrow>
   extract_list rt es acc = Inr (acc @ concat (map (entity_output rt) es))"
proof (induction es arbitrary: acc)
  case Nil
  show ?case by simp
next
  case (Cons entity es)
  from Cons.prems have rest: "list_all nested_is_list es" and here: "nested_is_list entity"
    by simp_all
  show ?case
  proof (cases entity)
    case (JDict d)
    show ?thesis
    proof (cases "map_of d ''businesses''")
      case None
      with JDict Cons.IH [OF rest] show ?thesis
        by (simp add: entity_output_def)
    next
      case (Some v)
      with here JDict obtain bs where "v = JList bs"
        by (cases v) (simp_all add: nested_is_list_def)
      with Some JDict Cons.IH [OF rest] show ?thesis
        by (simp add: entity_output_def py_iter_def extend_each_concat)
    qed
  qed (use Cons.IH [OF rest] in \<open>simp_all add: entity_output_def\<close>)
qed


lemma plain_record:
  "parse_business (strict_runtime k0 k1) (JDict [(''name'', JStr n), (''id'', JStr i)])
   = [plain_business i n]"
  "parse_business rt (JDict [(''id'', JStr i)]) = []"
  "id_field (plain_business i n) = i"
  by (simp_all add: parse_defs plain_business_def)








text \<open>
  Claim C8.  For a list-shaped \<^verbatim>\<open>entities\<close> whose entities hold their nested
  \<^verbatim>\<open>businesses\<close> as lists, the extractor returns, entity after entity in the order of the
  list, the businesses of that entity: those of its nested list in that list's order, or
  the entity's own when it has a \<^verbatim>\<open>name\<close> and no \<^verbatim>\<open>businesses\<close>.
\<close>

theorem extract_businesses_flattens:
  assumes "map_of response ''entities'' = Some (JList es)" and "list_all nested_is_list es"
  shows "extract_businesses rt (JDict response) = Inr (concat (map (entity_output rt) es))"
  using assms(1) extract_list_flat [OF assms(2), of rt "[]"]
  by (simp add: extract_businesses_def py_get_def)

theorem extract_businesses_flattens_witness:
  "map_sum id (map id_field) (extract_businesses (strict_runtime 0 0)
     (JDict [(''entities'', JList
        [JDict [(''name'', JStr ''A''), (''id'', JStr ''1'')],
         JDict [(''businesses'', JList
             [JDict [(''name'', JStr ''B''), (''id'', JStr ''2'')],
              JDict [(''name'', JStr ''C''), (''id'', JStr ''3'')]])],
         JDict [(''name'', JStr ''D''), (''id'', JStr ''4'')]])]))
   = Inr [''1'', ''2'', ''3'', ''4'']"
  using extract_businesses_flattens [of "[(''entities'', JList
        [JDict [(''name'', JStr ''A''), (''id'', JStr ''1'')],
         JDict [(''businesses'', JList
             [JDict [(''name'', JStr ''B''), (''id'', JStr ''2'')],
              JDict [(''name'', JStr ''C''), (''id'', JStr ''3'')]])],
         JDict [(''name'', JStr ''D''), (''id'', JStr ''4'')]])]" _ "strict_runtime 0 0"]
  by (simp add: nested_is_list_def entity_output_def plain_record)

section \<open>Distance in miles\<close>






































section \<open>The id of a Business\<close>

text \<open>
  The hash of the name \<^verbatim>\<open>A\<close> in two processes: one whose hash secret is \<open>(0, 0)\<close>
  (\<^verbatim>\<open>PYTHONHASHSEED=0\<close>), and one whose secret is the pair that \<^verbatim>\<open>PYTHONHASHSEED=1\<close>
  gives.  The name is one block of SipHash-1-3, followed by the three closing rounds.
\<close>

lemma seed0_absorb:
  "absorb 0x100000000000041
     (0x736f6d6570736575, 0x646f72616e646f6d, 0x6c7967656e657261, 0x7465646279746573)
   =
     (0x659487965aca82fd, 0xff651ba6cbca2327, 0x3b1450021b71bdd2, 0x32e4dae2041a352a)"
  by code_simp

lemma seed0_round1:
  "single_round
     (0x659487965aca82fd, 0xff651ba6cbca2327, 0x3b1450021b71bd2d, 0x32e4dae2041a352a)
   =
     (0xddafd5228f9b63f0, 0xc10e60c831edc305, 0x827c4c1f3586a528, 0x26a811a99ed8095)"
  by code_simp

lemma seed0_round2:
  "single_round
     (0xddafd5228f9b63f0, 0xc10e60c831edc305, 0x827c4c1f3586a528, 0x26a811a99ed8095)
   =
     (0xc7857bc9ee9f5dc1, 0xb020f2c274f561df, 0x495dc491d78e0111, 0x5d0c87ed147fe24b)"
  by code_simp

lemma seed0_round3:
  "single_round
     (0xc7857bc9ee9f5dc1, 0xb020f2c274f561df, 0x495dc491d78e0111, 0x5d0c87ed147fe24b)
   =
     (0x851c17a185ed2cdc, 0x504df3cf28f5fefc, 0xbbbd2d0010686c91, 0x853ddf764fe91c37)"
  by code_simp

lemma seed0_hash: "str_hash 0 0 ''A'' = - 1454356908258778490"
  by (simp add: str_hash_def siphash13_def sip_blocks.simps
      seed0_absorb seed0_round1 seed0_round2 seed0_round3
      split del: if_split)

lemma seed1_absorb:
  "absorb 0x100000000000041
     (0xddb90184f4cd465c, 0x8f86c9909f2dff3f, 0xc2af0b84eadb5148, 0x9f8cdf93883df521)
   =
     (0x53a3a8c0f3b9a378, 0xa4a99c31f7e29308, 0x9f35fb131549c408, 0x361367fbf72e7635)"
  by code_simp

lemma seed1_round1:
  "single_round
     (0x53a3a8c0f3b9a378, 0xa4a99c31f7e29308, 0x9f35fb131549c4f7, 0x361367fbf72e7635)
   =
     (0x9e4ecaa2729a5231, 0x5509aee7825ecad7, 0xc6755d41a114dd1d, 0x1a618303d56c0463)"
  by code_simp

lemma seed1_round2:
  "single_round
     (0x9e4ecaa2729a5231, 0x5509aee7825ecad7, 0xc6755d41a114dd1d, 0x1a618303d56c0463)
   =
     (0x58ce5232663c756a, 0xb4df31404b775420, 0xa424d929a75b6a07, 0xfde00e4d1a100fcc)"
  by code_simp

lemma seed1_round3:
  "single_round
     (0x58ce5232663c756a, 0xb4df31404b775420, 0xa424d929a75b6a07, 0xfde00e4d1a100fcc)
   =
     (0x5dfdc6f0dc5507a5, 0x99b2c7fca2808fef, 0x1ca358e48d8a7193, 0xf12412005a208e9a)"
  by code_simp

lemma seed1_hash: "str_hash 0xaed66ce184be2329 0xebe9bbf1f1499052 ''A'' = 3010739813545375555"
  by (simp add: str_hash_def siphash13_def sip_blocks.simps
      seed1_absorb seed1_round1 seed1_round2 seed1_round3
      split del: if_split)


lemma seed0_str: "py_str_int (- 1454356908258778490) = ''-1454356908258778490''"
  by (simp add: py_str_int_def nat_digits.simps digit_char_def)

lemma seed1_str: "py_str_int 3010739813545375555 = ''3010739813545375555''"
  by (simp add: py_str_int_def nat_digits.simps digit_char_def)

lemma seed0_record:
  "parse_business (strict_runtime 0 0) (JDict [(''name'', JStr ''A'')])
     = [plain_business ''-1454356908258778490'' ''A'']"
  "parse_business (strict_runtime 0 0) (JDict [(''votes'', JInt 7), (''name'', JStr ''A'')])
     = [plain_business ''-1454356908258778490'' ''A'']"
  by (simp_all add: parse_defs plain_business_def seed0_hash seed0_str)

lemma named_record:
  "parse_business (strict_runtime 0 0) (JDict [(''name'', JStr ''A''), (''alias'', JStr ''joes'')])
     = [plain_business ''joes'' ''A'']"
  "parse_business (strict_runtime 0 0)
     (JDict [(''name'', JStr ''A''), (''alias'', JStr ''joes''), (''id'', JStr ''b1'')])
     = [plain_business ''b1'' ''A'']"
  by (simp_all add: parse_defs plain_business_def)

lemma id_of_record:
  assumes "parse_business rt (JDict d) = [b]"
  shows "map_of d ''name'' = Some (JStr (name b))"
    and "JStr (id_field b) =
           (case map_of d ''id'' of
              Some i \<Rightarrow> i
            | None \<Rightarrow>
                (case map_of d ''alias'' of
                   Some a \<Rightarrow> a
                 | None \<Rightarrow> JStr (py_str_int (str_hash (hash_k0 rt) (hash_k1 rt) (name b)))))"
proof -
  from parse_business_inv(1,3) [OF assms]
  show n: "map_of d ''name'' = Some (JStr (name b))"
    by (auto simp: py_in_def py_get_def)
  from parse_business_inv(2) [OF assms] n
  show "JStr (id_field b) =
           (case map_of d ''id'' of
              Some i \<Rightarrow> i
            | None \<Rightarrow>
                (case map_of d ''alias'' of
                   Some a \<Rightarrow> a
                 | None \<Rightarrow> JStr (py_str_int (str_hash (hash_k0 rt) (hash_k1 rt) (name b)))))"
    by (auto simp: id_arg_def py_get_def py_hash_def split: option.splits)
qed

text \<open>
  Claim C3, as the code has it.  The id of the Business a record yields is the record's
  \<^verbatim>\<open>id\<close> if it has that key, else its \<^verbatim>\<open>alias\<close> if it has that key, else the decimal
  string of the hash of its name, under the hash secret of the process that runs the
  normalizer.  So within one process two records with the same name and neither key
  get the same id.
\<close>

theorem id_resolution:
  assumes "parse_business rt (JDict d1) = [b1]" and "parse_business rt (JDict d2) = [b2]"
  shows "JStr (id_field b1) =
           (case map_of d1 ''id'' of
              Some i \<Rightarrow> i
            | None \<Rightarrow>
                (case map_of d1 ''alias'' of
                   Some a \<Rightarrow> a
                 | None \<Rightarrow> JStr (py_str_int (str_hash (hash_k0 rt) (hash_k1 rt) (name b1)))))
    \<and> map_of d1 ''name'' = Some (JStr (name b1))
    \<and> (map_of d1 ''id'' = None \<and> map_of d1 ''alias'' = None
        \<and> map_of d2 ''id'' = None \<and> map_of d2 ''alias'' = None
        \<and> map_of d1 ''name'' = map_of d2 ''name'' \<longrightarrow> id_field b1 = id_field b2)"
  using id_of_record [OF assms(1)] id_of_record [OF assms(2)]
  by auto

theorem id_resolution_witness:
  "parse_business (strict_runtime 0 0) (JDict [(''name'', JStr ''A'')])
     = [plain_business ''-1454356908258778490'' ''A'']
   \<and> parse_business (strict_runtime 0 0) (JDict [(''votes'', JInt 7), (''name'', JStr ''A'')])
     = [plain_business ''-1454356908258778490'' ''A'']
   \<and> parse_business (strict_runtime 0 0)
        (JDict [(''name'', JStr ''A''), (''alias'', JStr ''joes'')])
     = [plain_business ''joes'' ''A'']
   \<and> parse_business (strict_runtime 0 0)
        (JDict [(''name'', JStr ''A''), (''alias'', JStr ''joes''), (''id'', JStr ''b1'')])
     = [plain_business ''b1'' ''A'']"
  using id_resolution [OF seed0_record(1) seed0_record(2)]
    id_resolution [OF named_record(1) named_record(2)] seed0_record named_record
  by (simp add: plain_business_def)

text \<open>
  The same record in two processes: the ids differ, so the id derived from the name is
  not repeatable across runs.
\<close>

theorem derived_id_differs_between_processes:
  "map id_field (parse_business (strict_runtime 0 0) (JDict [(''name'', JStr ''A'')]))
     = [''-1454356908258778490'']
   \<and> map id_field (parse_business (strict_runtime 0xaed66ce184be2329 0xebe9bbf1f1499052)
        (JDict [(''name'', JStr ''A'')]))
     = [''3010739813545375555'']"
  by (simp add: parse_defs seed0_hash seed0_str seed1_hash seed1_str)

end
